theory Spec2Isabelle
  imports Main "HOL-Library.Multiset" "HOL-Library.List_Lexorder" "HOL-Library.Product_Lexorder"
begin

unbundle bit_operations_syntax

section \<open>Data model\<close>

text \<open>
  The verifier of \<^verbatim>\<open>src/bot.py\<close> is \<^verbatim>\<open>validate_init_data(init_data: str, bot_token: str) -> bool\<close>.
  A Python \<^verbatim>\<open>str\<close> is a sequence of Unicode code points (lone surrogates included), so a
  string is a list of code points, each a natural number; a \<^verbatim>\<open>bytes\<close> object is a list of
  octets. Python compares strings code point by code point, a proper prefix being smaller:
  that is the lexicographic order on lists of naturals.

  The verifier calls the standard library: \<^verbatim>\<open>urllib.parse.parse_qsl\<close>, \<^verbatim>\<open>dict\<close>, \<^verbatim>\<open>sorted\<close>,
  \<^verbatim>\<open>str.encode\<close>, \<^verbatim>\<open>hmac.new\<close> with \<^verbatim>\<open>hashlib.sha256\<close>, and \<^verbatim>\<open>hmac.compare_digest\<close>. These are
  embedded as CPython 3 defines them (\<^verbatim>\<open>parse_qsl\<close> as in \<^verbatim>\<open>Lib/urllib/parse.py\<close> with \<open>&\<close> as
  the only separator, SHA-256 as in FIPS 180-4, HMAC as in RFC 2104), so that the verifier
  can be evaluated on a payload.
\<close>

type_synonym pystr = "nat list"
type_synonym bytes = "nat list"

text \<open>String literals of the source are written as \<open>str ''...''\<close>.\<close>

definition str :: "string \<Rightarrow> pystr" where
  "str s = map of_char s"

text \<open>The two exceptions that the body of the verifier can raise.\<close>

datatype py_exception = UnicodeEncodeError | TypeError

section \<open>String primitives\<close>

text \<open>\<^verbatim>\<open>s.split(sep)\<close> for a one-character separator: never an empty list.\<close>

fun str_split :: "nat \<Rightarrow> pystr \<Rightarrow> pystr list" where
  "str_split sep [] = [[]]"
| "str_split sep (c # cs) =
     (if c = sep then [] # str_split sep cs
      else (case str_split sep cs of f # fs \<Rightarrow> (c # f) # fs | [] \<Rightarrow> [[c]]))"

text \<open>\<^verbatim>\<open>sep.join(parts)\<close>.\<close>

fun str_join :: "pystr \<Rightarrow> pystr list \<Rightarrow> pystr" where
  "str_join sep [] = []"
| "str_join sep [p] = p"
| "str_join sep (p # q # ps) = p @ sep @ str_join sep (q # ps)"

text \<open>\<^verbatim>\<open>s.partition(sep)\<close>: the text before the first separator, whether there is one, the text after it.\<close>

definition str_partition :: "nat \<Rightarrow> pystr \<Rightarrow> pystr \<times> bool \<times> pystr" where
  "str_partition sep s =
     (takeWhile (\<lambda>c. c \<noteq> sep) s, sep \<in> set s, drop 1 (dropWhile (\<lambda>c. c \<noteq> sep) s))"

text \<open>\<^verbatim>\<open>s.replace('+', ' ')\<close>.\<close>

definition replace_plus :: "pystr \<Rightarrow> pystr" where
  "replace_plus s = map (\<lambda>c. if c = 43 then 32 else c) s"

section \<open>UTF-8\<close>

text \<open>
  \<^verbatim>\<open>s.encode()\<close>: UTF-8 with the error handler \<^verbatim>\<open>strict\<close>. A surrogate code point cannot be
  encoded and raises \<^verbatim>\<open>UnicodeEncodeError\<close>. Numbers from \<open>0x110000\<close> on are no code points;
  no Python string holds one, and the model refuses them in the same way.
\<close>

definition utf8_encode_cp :: "nat \<Rightarrow> py_exception + bytes" where
  "utf8_encode_cp c =
     (if c < 0x80 then Inr [c]
      else if c < 0x800 then Inr [0xC0 + c div 64, 0x80 + c mod 64]
      else if 0xD800 \<le> c \<and> c \<le> 0xDFFF then Inl UnicodeEncodeError
      else if c < 0x10000 then
        Inr [0xE0 + c div 4096, 0x80 + c div 64 mod 64, 0x80 + c mod 64]
      else if c < 0x110000 then
        Inr [0xF0 + c div 262144, 0x80 + c div 4096 mod 64, 0x80 + c div 64 mod 64, 0x80 + c mod 64]
      else Inl UnicodeEncodeError)"

fun encode :: "pystr \<Rightarrow> py_exception + bytes" where
  "encode [] = Inr []"
| "encode (c # cs) =
     (case utf8_encode_cp c of
        Inl e \<Rightarrow> Inl e
      | Inr b \<Rightarrow> (case encode cs of Inl e \<Rightarrow> Inl e | Inr bs \<Rightarrow> Inr (b @ bs)))"

text \<open>
  \<^verbatim>\<open>b.decode('utf-8', 'replace')\<close>: every maximal ill-formed part of the input becomes one
  U+FFFD and decoding goes on behind it. A continuation byte is \<open>0x80..0xBF\<close>; the second
  byte of a sequence is narrowed after \<open>0xE0\<close>, \<open>0xED\<close>, \<open>0xF0\<close> and \<open>0xF4\<close> (no overlong
  forms, no surrogates, nothing above U+10FFFF).
\<close>

definition is_cont :: "nat \<Rightarrow> bool" where
  "is_cont b = (0x80 \<le> b \<and> b \<le> 0xBF)"

definition second_ok :: "nat \<Rightarrow> nat \<Rightarrow> bool" where
  "second_ok lead b =
     (is_cont b \<and> \<not> (lead = 0xE0 \<and> b < 0xA0) \<and> \<not> (lead = 0xED \<and> 0xA0 \<le> b)
      \<and> \<not> (lead = 0xF0 \<and> b < 0x90) \<and> \<not> (lead = 0xF4 \<and> 0x90 \<le> b))"

fun decode_replace :: "bytes \<Rightarrow> pystr" where
  "decode_replace [] = []"
| "decode_replace (b # bs) =
     (if b < 0x80 then b # decode_replace bs
      else if 0xC2 \<le> b \<and> b \<le> 0xDF then
        (case bs of
           c # r \<Rightarrow> if is_cont c then ((b - 0xC0) * 64 + (c - 0x80)) # decode_replace r
                    else 0xFFFD # decode_replace bs
         | [] \<Rightarrow> [0xFFFD])
      else if 0xE0 \<le> b \<and> b \<le> 0xEF then
        (case bs of
           c # r \<Rightarrow>
             if second_ok b c then
               (case r of
                  d # r' \<Rightarrow>
                    if is_cont d
                    then ((b - 0xE0) * 4096 + (c - 0x80) * 64 + (d - 0x80)) # decode_replace r'
                    else 0xFFFD # decode_replace r
                | [] \<Rightarrow> [0xFFFD])
             else 0xFFFD # decode_replace bs
         | [] \<Rightarrow> [0xFFFD])
      else if 0xF0 \<le> b \<and> b \<le> 0xF4 then
        (case bs of
           c # r \<Rightarrow>
             if second_ok b c then
               (case r of
                  d # r' \<Rightarrow>
                    if is_cont d then
                      (case r' of
                         e # r'' \<Rightarrow>
                           if is_cont e
                           then ((b - 0xF0) * 262144 + (c - 0x80) * 4096 + (d - 0x80) * 64 + (e - 0x80))
                                # decode_replace r''
                           else 0xFFFD # decode_replace r'
                       | [] \<Rightarrow> [0xFFFD])
                    else 0xFFFD # decode_replace r
                | [] \<Rightarrow> [0xFFFD])
             else 0xFFFD # decode_replace bs
         | [] \<Rightarrow> [0xFFFD])
      else 0xFFFD # decode_replace bs)"

section \<open>Percent-decoding: \<^verbatim>\<open>urllib.parse\<close>\<close>

text \<open>The value of a hexadecimal digit (\<^verbatim>\<open>_hexdig = '0123456789ABCDEFabcdef'\<close>).\<close>

definition hexval :: "nat \<Rightarrow> nat option" where
  "hexval c =
     (if 48 \<le> c \<and> c \<le> 57 then Some (c - 48)
      else if 65 \<le> c \<and> c \<le> 70 then Some (c - 55)
      else if 97 \<le> c \<and> c \<le> 102 then Some (c - 87)
      else None)"

text \<open>
  \<^verbatim>\<open>unquote_to_bytes\<close> splits at \<open>%\<close>; a piece that starts with two hexadecimal digits gives
  the byte they name and the rest of the piece, any other piece (the \<^verbatim>\<open>KeyError\<close> branch)
  is kept with its \<open>%\<close>. It is called on runs of ASCII characters, where encoding to
  bytes changes nothing.
\<close>

fun unquote_item :: "bytes \<Rightarrow> bytes" where
  "unquote_item (a # b # rest) =
     (case hexval a of
        None \<Rightarrow> 37 # a # b # rest
      | Some x \<Rightarrow> (case hexval b of None \<Rightarrow> 37 # a # b # rest | Some y \<Rightarrow> (16 * x + y) # rest))"
| "unquote_item item = 37 # item"

definition unquote_to_bytes :: "pystr \<Rightarrow> bytes" where
  "unquote_to_bytes s =
     (case str_split 37 s of [] \<Rightarrow> [] | b # bits \<Rightarrow> b @ concat (map unquote_item bits))"

text \<open>
  \<^verbatim>\<open>unquote\<close>: a string without \<open>%\<close> is returned as it is; otherwise the string is cut into
  maximal runs of ASCII and of other characters (\<^verbatim>\<open>_asciire.split\<close>), the ASCII runs are
  percent-decoded and then decoded as UTF-8 with \<^verbatim>\<open>errors='replace'\<close>, the other runs are
  copied.
\<close>

definition is_ascii :: "nat \<Rightarrow> bool" where
  "is_ascii c = (c < 128)"

function unquote_runs :: "pystr \<Rightarrow> pystr" where
  "unquote_runs [] = []"
| "unquote_runs (c # cs) =
     (if is_ascii c
      then decode_replace (unquote_to_bytes (takeWhile is_ascii (c # cs)))
           @ unquote_runs (dropWhile is_ascii (c # cs))
      else takeWhile (\<lambda>x. \<not> is_ascii x) (c # cs)
           @ unquote_runs (dropWhile (\<lambda>x. \<not> is_ascii x) (c # cs)))"
  by pat_completeness auto
termination
  by (relation "measure length") (auto simp: less_Suc_eq_le length_dropWhile_le)

definition unquote :: "pystr \<Rightarrow> pystr" where
  "unquote s = (if 37 \<in> set s then unquote_runs s else s)"

definition unquote_plus :: "pystr \<Rightarrow> pystr" where
  "unquote_plus s = unquote (replace_plus s)"

text \<open>
  \<^verbatim>\<open>parse_qsl(qs)\<close> with its defaults (\<^verbatim>\<open>keep_blank_values=False\<close>, \<^verbatim>\<open>strict_parsing=False\<close>,
  \<^verbatim>\<open>separator='&'\<close>): an empty field and a field with an empty value are skipped, a field
  without \<open>=\<close> has an empty value.
\<close>

definition parse_field :: "pystr \<Rightarrow> (pystr \<times> pystr) list" where
  "parse_field name_value =
     (if name_value = [] then []
      else (case str_partition 61 name_value of
              (name, has_eq, val) \<Rightarrow>
                if val = [] then [] else [(unquote_plus name, unquote_plus val)]))"

definition parse_qsl :: "pystr \<Rightarrow> (pystr \<times> pystr) list" where
  "parse_qsl qs = (if qs = [] then [] else concat (map parse_field (str_split 38 qs)))"

section \<open>SHA-256 and HMAC: \<^verbatim>\<open>hashlib\<close>, \<^verbatim>\<open>hmac\<close>\<close>

text \<open>
  SHA-256 as FIPS 180-4 defines it, on 32-bit words kept as naturals below \<open>2 ^ 32\<close>, with
  the wrap-around of the additions written out. The round constants and the initial hash
  value are written in decimal: \<open>1116352408\<close> is \<open>0x428a2f98\<close>, \<open>1779033703\<close> is \<open>0x6a09e667\<close>.
\<close>

type_synonym u32 = nat

definition add32 :: "u32 \<Rightarrow> u32 \<Rightarrow> u32" where
  "add32 x y = (x + y) mod 4294967296"

definition rotr :: "nat \<Rightarrow> u32 \<Rightarrow> u32" where
  "rotr n x = x div 2 ^ n + (x mod 2 ^ n) * 2 ^ (32 - n)"

definition shr :: "nat \<Rightarrow> u32 \<Rightarrow> u32" where
  "shr n x = x div 2 ^ n"

definition Ch :: "u32 \<Rightarrow> u32 \<Rightarrow> u32 \<Rightarrow> u32" where
  "Ch x y z = (x AND y) XOR ((4294967295 - x) AND z)"

definition Maj :: "u32 \<Rightarrow> u32 \<Rightarrow> u32 \<Rightarrow> u32" where
  "Maj x y z = (x AND y) XOR (x AND z) XOR (y AND z)"

definition Sigma0 :: "u32 \<Rightarrow> u32" where
  "Sigma0 x = rotr 2 x XOR rotr 13 x XOR rotr 22 x"

definition Sigma1 :: "u32 \<Rightarrow> u32" where
  "Sigma1 x = rotr 6 x XOR rotr 11 x XOR rotr 25 x"

definition sigma0 :: "u32 \<Rightarrow> u32" where
  "sigma0 x = rotr 7 x XOR rotr 18 x XOR shr 3 x"

definition sigma1 :: "u32 \<Rightarrow> u32" where
  "sigma1 x = rotr 17 x XOR rotr 19 x XOR shr 10 x"

definition K256 :: "u32 list" where
  "K256 = [
  1116352408, 1899447441, 3049323471, 3921009573, 961987163, 1508970993, 2453635748, 2870763221,
  3624381080, 310598401, 607225278, 1426881987, 1925078388, 2162078206, 2614888103, 3248222580,
  3835390401, 4022224774, 264347078, 604807628, 770255983, 1249150122, 1555081692, 1996064986,
  2554220882, 2821834349, 2952996808, 3210313671, 3336571891, 3584528711, 113926993, 338241895,
  666307205, 773529912, 1294757372, 1396182291, 1695183700, 1986661051, 2177026350, 2456956037,
  2730485921, 2820302411, 3259730800, 3345764771, 3516065817, 3600352804, 4094571909, 275423344,
  430227734, 506948616, 659060556, 883997877, 958139571, 1322822218, 1537002063, 1747873779,
  1955562222, 2024104815, 2227730452, 2361852424, 2428436474, 2756734187, 3204031479, 3329325298]"

definition H0 :: "u32 list" where
  "H0 = [1779033703, 3144134277, 1013904242, 2773480762,
         1359893119, 2600822924, 528734635, 1541459225]"

text \<open>The sixteen big-endian words of a block.\<close>

fun be_words :: "bytes \<Rightarrow> u32 list" where
  "be_words (a # b # c # d # rest) = (((a * 256 + b) * 256 + c) * 256 + d) # be_words rest"
| "be_words _ = []"

text \<open>
  The message schedule is kept as a window of the sixteen latest words: the round consumes
  the oldest, and the word sixteen places later is appended.
\<close>

fun next_w :: "u32 list \<Rightarrow> u32" where
  "next_w (w0 # w1 # w2 # w3 # w4 # w5 # w6 # w7 # w8 # w9 # w10 # w11 # w12 # w13 # w14 # rest) =
     add32 (add32 (add32 (sigma1 w14) w9) (sigma0 w1)) w0"
| "next_w _ = 0"

definition round_out :: "u32 \<Rightarrow> u32 \<Rightarrow> u32 list \<Rightarrow> u32 list" where
  "round_out t1 t2 st =
     (case st of
        [a, b, c, d, e, f, g, h] \<Rightarrow> [add32 t1 t2, a, b, c, add32 d t1, e, f, g]
      | _ \<Rightarrow> st)"

fun round_step :: "u32 \<Rightarrow> u32 \<Rightarrow> u32 list \<Rightarrow> u32 list" where
  "round_step k w [a, b, c, d, e, f, g, h] =
     round_out (add32 (add32 (add32 (add32 h (Sigma1 e)) (Ch e f g)) k) w)
               (add32 (Sigma0 a) (Maj a b c)) [a, b, c, d, e, f, g, h]"
| "round_step k w st = st"

fun rounds :: "u32 list \<Rightarrow> u32 list \<Rightarrow> u32 list \<Rightarrow> u32 list" where
  "rounds [] ws st = st"
| "rounds (k # ks) ws st = rounds ks (tl ws @ [next_w ws]) (round_step k (hd ws) st)"

definition compress :: "u32 list \<Rightarrow> u32 list \<Rightarrow> u32 list" where
  "compress hs ws = map2 add32 hs (rounds K256 ws hs)"

text \<open>Padding: the bit \<open>1\<close>, zeros up to 56 modulo 64, the length in bits on eight bytes.\<close>

definition be64 :: "nat \<Rightarrow> bytes" where
  "be64 n = [n div 72057594037927936 mod 256, n div 281474976710656 mod 256,
             n div 1099511627776 mod 256, n div 4294967296 mod 256,
             n div 16777216 mod 256, n div 65536 mod 256, n div 256 mod 256, n mod 256]"

definition sha_pad :: "bytes \<Rightarrow> bytes" where
  "sha_pad m = m @ [128] @ replicate ((119 - length m mod 64) mod 64) 0 @ be64 (8 * length m)"

fun sha_blocks :: "u32 list \<Rightarrow> bytes \<Rightarrow> u32 list" where
  "sha_blocks hs [] = hs"
| "sha_blocks hs (b # bs) =
     sha_blocks (compress hs (be_words (take 64 (b # bs)))) (drop 64 (b # bs))"

definition word_bytes :: "u32 \<Rightarrow> bytes" where
  "word_bytes w = [w div 16777216 mod 256, w div 65536 mod 256, w div 256 mod 256, w mod 256]"

definition sha256 :: "bytes \<Rightarrow> bytes" where
  "sha256 m = concat (map word_bytes (sha_blocks H0 (sha_pad m)))"

text \<open>
  \<^verbatim>\<open>hmac.new(key, msg, hashlib.sha256).digest()\<close> (RFC 2104, block size 64): a key longer than
  a block is hashed first, the key is filled with zeros to a block.
\<close>

definition hmac_key :: "bytes \<Rightarrow> bytes" where
  "hmac_key key =
     (let k = (if 64 < length key then sha256 key else key) in k @ replicate (64 - length k) 0)"

definition hmac_sha256 :: "bytes \<Rightarrow> bytes \<Rightarrow> bytes" where
  "hmac_sha256 key msg =
     sha256 (map (\<lambda>b. b XOR 0x5C) (hmac_key key)
             @ sha256 (map (\<lambda>b. b XOR 0x36) (hmac_key key) @ msg))"

text \<open>\<^verbatim>\<open>hexdigest()\<close>: two lowercase hexadecimal digits for every byte.\<close>

definition hexdigit :: "nat \<Rightarrow> nat" where
  "hexdigit n = (if n < 10 then 48 + n else 87 + n)"

definition hexdigest :: "bytes \<Rightarrow> pystr" where
  "hexdigest bs = concat (map (\<lambda>b. [hexdigit (b div 16 mod 16), hexdigit (b mod 16)]) bs)"

text \<open>
  \<^verbatim>\<open>hmac.compare_digest(a, b)\<close> on two strings: \<^verbatim>\<open>TypeError\<close> unless both are ASCII,
  else whether they are equal.
\<close>

definition compare_digest :: "pystr \<Rightarrow> pystr \<Rightarrow> py_exception + bool" where
  "compare_digest a b =
     (if list_all is_ascii a \<and> list_all is_ascii b then Inr (a = b) else Inl TypeError)"

section \<open>The dictionary\<close>

text \<open>
  \<^verbatim>\<open>dict(pairs)\<close> stores the pairs from left to right: a key seen again keeps its place and
  takes the new value. A dictionary is the list of its items in insertion order.
\<close>

type_synonym dict = "(pystr \<times> pystr) list"

fun dict_setitem :: "pystr \<Rightarrow> pystr \<Rightarrow> dict \<Rightarrow> dict" where
  "dict_setitem k v [] = [(k, v)]"
| "dict_setitem k v (p # d) = (if fst p = k then (fst p, v) # d else p # dict_setitem k v d)"

definition dict_of :: "(pystr \<times> pystr) list \<Rightarrow> dict" where
  "dict_of pairs = foldl (\<lambda>d p. dict_setitem (fst p) (snd p) d) [] pairs"

text \<open>The dictionary that \<^verbatim>\<open>d.pop(k)\<close> leaves behind.\<close>

definition dict_pop :: "pystr \<Rightarrow> dict \<Rightarrow> dict" where
  "dict_pop k d = filter (\<lambda>p. fst p \<noteq> k) d"

section \<open>The verifier: \<^verbatim>\<open>validate_init_data\<close>\<close>

text \<open>
  \<^verbatim>\<open>'\n'.join(f"{k}={v}" for k, v in sorted(parsed_data.items()))\<close>: the items are sorted as
  tuples, that is by key and then by value.
\<close>

definition data_check_string :: "dict \<Rightarrow> pystr" where
  "data_check_string parsed_data =
     str_join [10] (map (\<lambda>p. fst p @ [61] @ snd p) (sort parsed_data))"

text \<open>
  The two \<^verbatim>\<open>hmac.new\<close> calls. Each \<^verbatim>\<open>.encode()\<close> can raise, the token's first.
\<close>

definition calculated_hash :: "dict \<Rightarrow> pystr \<Rightarrow> py_exception + pystr" where
  "calculated_hash parsed_data bot_token =
     (case encode bot_token of
        Inl e \<Rightarrow> Inl e
      | Inr token \<Rightarrow>
          (case encode (data_check_string parsed_data) of
             Inl e \<Rightarrow> Inl e
           | Inr msg \<Rightarrow>
               Inr (hexdigest (hmac_sha256 (hmac_sha256 (str ''WebAppData'') token) msg))))"

text \<open>The body of the \<^verbatim>\<open>try\<close> block: what it returns, or the exception it raises.\<close>

definition validate_body :: "pystr \<Rightarrow> pystr \<Rightarrow> py_exception + bool" where
  "validate_body init_data bot_token =
     (let parsed_data = dict_of (parse_qsl init_data) in
      case map_of parsed_data (str ''hash'') of
        None \<Rightarrow> Inr False
      | Some received_hash \<Rightarrow>
          (case calculated_hash (dict_pop (str ''hash'') parsed_data) bot_token of
             Inl e \<Rightarrow> Inl e
           | Inr calculated \<Rightarrow> compare_digest received_hash calculated))"

text \<open>
  \<^verbatim>\<open>except Exception\<close> logs the error and returns \<^verbatim>\<open>False\<close>. The log line is no part of the
  result and is left out.
\<close>

definition validate_init_data :: "pystr \<Rightarrow> pystr \<Rightarrow> bool" where
  "validate_init_data init_data bot_token =
     (case validate_body init_data bot_token of Inl e \<Rightarrow> False | Inr b \<Rightarrow> b)"

text \<open>The two parts of a payload that the verifier works on, named for the statements below.\<close>

definition received_hash :: "pystr \<Rightarrow> pystr option" where
  "received_hash init_data = map_of (dict_of (parse_qsl init_data)) (str ''hash'')"

definition signed_fields :: "pystr \<Rightarrow> dict" where
  "signed_fields init_data = dict_pop (str ''hash'') (dict_of (parse_qsl init_data))"

section \<open>The algorithm of section 4.1, in the words of the specification\<close>

text \<open>
  Step 3: the remaining pairs sorted by key, each written \<open>key=value\<close>, joined by newlines.
  Steps 4 and 5: the secondary key is the HMAC-SHA256 of the secret under the key
  \<open>WebAppData\<close>; the candidate signature is the HMAC-SHA256 of the check-string under the
  secondary key, in lowercase hexadecimal. There is no signature where a string has no
  UTF-8 encoding.
\<close>

definition spec_check_string :: "(pystr \<times> pystr) list \<Rightarrow> pystr" where
  "spec_check_string pairs =
     str_join [10] (map (\<lambda>p. fst p @ [61] @ snd p) (sort_key fst pairs))"

definition spec_lower_hex :: "bytes \<Rightarrow> pystr" where
  "spec_lower_hex bs =
     concat (map (\<lambda>b. [str ''0123456789abcdef'' ! (b div 16), str ''0123456789abcdef'' ! (b mod 16)]) bs)"

definition spec_signature :: "(pystr \<times> pystr) list \<Rightarrow> pystr \<Rightarrow> pystr option" where
  "spec_signature pairs secret =
     (case encode secret of
        Inl e \<Rightarrow> None
      | Inr s \<Rightarrow>
          (case encode (spec_check_string pairs) of
             Inl e \<Rightarrow> None
           | Inr m \<Rightarrow> Some (spec_lower_hex (hmac_sha256 (hmac_sha256 (str ''WebAppData'') s) m))))"

definition is_lower_hex :: "nat \<Rightarrow> bool" where
  "is_lower_hex c = (48 \<le> c \<and> c \<le> 57 \<or> 97 \<le> c \<and> c \<le> 102)"

text \<open>The uppercase form of a hexadecimal string: the letters \<open>a\<close> to \<open>z\<close> become \<open>A\<close> to \<open>Z\<close>.\<close>

definition hex_upper :: "pystr \<Rightarrow> pystr" where
  "hex_upper h = map (\<lambda>c. if 97 \<le> c \<and> c \<le> 122 then c - 32 else c) h"

section \<open>Payloads with a repeated key\<close>

text \<open>
  The keys that the fields of a payload give to \<^verbatim>\<open>parse_qsl\<close>; a field that the parser skips
  gives none. \<open>drop_shadowed\<close> leaves out every field whose key comes again in a later
  field, and \<open>remove_shadowed\<close> is the payload so reduced.
\<close>

definition field_keys :: "pystr list \<Rightarrow> pystr list" where
  "field_keys fs = map fst (concat (map parse_field fs))"

fun drop_shadowed :: "pystr list \<Rightarrow> pystr list" where
  "drop_shadowed [] = []"
| "drop_shadowed (f # fs) =
     (if list_ex (\<lambda>k. k \<in> set (field_keys fs)) (field_keys [f])
      then drop_shadowed fs else f # drop_shadowed fs)"

definition remove_shadowed :: "pystr \<Rightarrow> pystr" where
  "remove_shadowed qs = str_join [38] (drop_shadowed (str_split 38 qs))"

section \<open>Properties of the dictionary and of the signature\<close>


subsection \<open>The dictionary keeps the last value of every key\<close>

lemma map_of_dict_setitem: "map_of (dict_setitem k v d) = (map_of d)(k \<mapsto> v)"
  by (induction d) (auto simp: fun_eq_iff)

lemma keys_dict_setitem: "fst ` set (dict_setitem k v d) = insert k (fst ` set d)"
  by (induction d) auto

lemma distinct_dict_setitem:
  "distinct (map fst d) \<Longrightarrow> distinct (map fst (dict_setitem k v d))"
proof (induction d)
  case Nil
  then show ?case by simp
next
  case (Cons p d)
  then show ?case using keys_dict_setitem [of k v d] by auto
qed

lemma foldl_setitem:
  "map_of (foldl (\<lambda>d p. dict_setitem (fst p) (snd p) d) d0 ps) = map_of d0 ++ map_of (rev ps)"
proof (induction ps arbitrary: d0)
  case Nil
  then show ?case by simp
next
  case (Cons a ps)
  have "map_of (foldl (\<lambda>d p. dict_setitem (fst p) (snd p) d) d0 (a # ps))
          = (map_of d0)(fst a \<mapsto> snd a) ++ map_of (rev ps)"
    unfolding foldl_Cons Cons.IH map_of_dict_setitem ..
  also have "\<dots> = map_of d0 ++ (map_of [a] ++ map_of (rev ps))"
    by (cases a) (auto simp: fun_eq_iff map_add_def split: option.splits)
  also have "\<dots> = map_of d0 ++ map_of (rev (a # ps))"
    by simp
  finally show ?case .
qed

lemma distinct_foldl_setitem:
  "distinct (map fst d0) \<Longrightarrow> distinct (map fst (foldl (\<lambda>d p. dict_setitem (fst p) (snd p) d) d0 ps))"
  by (induction ps arbitrary: d0) (simp_all add: distinct_dict_setitem)

lemma map_of_dict_of: "map_of (dict_of ps) = map_of (rev ps)"
  by (simp add: dict_of_def foldl_setitem)

lemma distinct_dict_of: "distinct (map fst (dict_of ps))"
  by (simp add: dict_of_def distinct_foldl_setitem)

lemma map_of_dict_pop: "map_of (dict_pop k d) = (map_of d)(k := None)"
  by (induction d) (auto simp: dict_pop_def fun_eq_iff)

lemma distinct_dict_pop: "distinct (map fst d) \<Longrightarrow> distinct (map fst (dict_pop k d))"
  by (simp add: dict_pop_def distinct_map_filter)

lemma distinct_signed_fields: "distinct (map fst (signed_fields p))"
  by (simp add: signed_fields_def distinct_dict_pop distinct_dict_of)

lemma sort_cong_map_of:
  assumes "distinct (map fst d1)" "distinct (map fst d2)" "map_of d1 = map_of d2"
  shows "sort d1 = sort d2"
proof -
  have "((k, v) \<in> set d1) = ((k, v) \<in> set d2)" for k v
    using map_of_eq_Some_iff [OF assms(1), of k v] map_of_eq_Some_iff [OF assms(2), of k v] assms(3)
    by simp
  then have "set d1 = set d2"
    by auto
  moreover have "distinct d1" "distinct d2"
    using assms(1,2) by (simp_all add: distinct_map)
  ultimately have "mset d1 = mset d2"
    by (simp add: set_eq_iff_mset_eq_distinct)
  then show ?thesis
    by (metis mset_sort properties_for_sort sorted_sort)
qed

lemma signed_fields_cong:
  assumes "map_of (rev (parse_qsl p1)) = map_of (rev (parse_qsl p2))"
  shows "sort (signed_fields p1) = sort (signed_fields p2)"
  by (rule sort_cong_map_of)
     (simp_all add: distinct_signed_fields, simp add: signed_fields_def map_of_dict_pop map_of_dict_of assms)

lemma received_hash_cong:
  "map_of (rev (parse_qsl p1)) = map_of (rev (parse_qsl p2)) \<Longrightarrow> received_hash p1 = received_hash p2"
  by (simp add: received_hash_def map_of_dict_of)

subsection \<open>The hexadecimal digest\<close>

lemma hexdigit_lower: "n < 16 \<Longrightarrow> is_lower_hex (hexdigit n)"
  by (auto simp: is_lower_hex_def hexdigit_def)

lemma hexdigest_lower: "list_all is_lower_hex (hexdigest bs)"
  by (induction bs) (simp_all add: hexdigest_def hexdigit_lower)

lemma lower_hex_ascii: "is_lower_hex c \<Longrightarrow> is_ascii c"
  by (auto simp: is_lower_hex_def is_ascii_def)

lemma hexdigest_ascii: "list_all is_ascii (hexdigest bs)"
  using hexdigest_lower [of bs] by (auto simp: list_all_iff lower_hex_ascii)

lemma length_hexdigest: "length (hexdigest bs) = 2 * length bs"
  by (induction bs) (simp_all add: hexdigest_def)

lemma calculated_hash_lower: "calculated_hash d t = Inr h \<Longrightarrow> list_all is_lower_hex h"
  by (auto simp: calculated_hash_def hexdigest_lower split: sum.splits)

lemma calculated_hash_ascii: "calculated_hash d t = Inr h \<Longrightarrow> list_all is_ascii h"
  by (auto simp: calculated_hash_def hexdigest_ascii split: sum.splits)

subsection \<open>When the verifier accepts\<close>

lemma validate_body_alt:
  "validate_body p t =
     (case received_hash p of
        None \<Rightarrow> Inr False
      | Some h \<Rightarrow> (case calculated_hash (signed_fields p) t of
                     Inl e \<Rightarrow> Inl e | Inr c \<Rightarrow> compare_digest h c))"
  by (simp add: validate_body_def received_hash_def signed_fields_def Let_def split: option.splits)

lemma validate_iff:
  "validate_init_data p t \<longleftrightarrow>
     (\<exists>h. received_hash p = Some h \<and> calculated_hash (signed_fields p) t = Inr h)"
proof
  assume "validate_init_data p t"
  then show "\<exists>h. received_hash p = Some h \<and> calculated_hash (signed_fields p) t = Inr h"
    by (auto simp: validate_init_data_def validate_body_alt compare_digest_def
             split: sum.splits option.splits if_splits)
next
  assume "\<exists>h. received_hash p = Some h \<and> calculated_hash (signed_fields p) t = Inr h"
  then obtain h where h: "received_hash p = Some h" "calculated_hash (signed_fields p) t = Inr h"
    by blast
  then show "validate_init_data p t"
    by (simp add: validate_init_data_def validate_body_alt compare_digest_def calculated_hash_ascii)
qed

lemma calculated_hash_sort:
  "sort d1 = sort d2 \<Longrightarrow> calculated_hash d1 t = calculated_hash d2 t"
  by (simp add: calculated_hash_def data_check_string_def split: sum.splits)

lemma validate_cong:
  assumes "map_of (rev (parse_qsl p1)) = map_of (rev (parse_qsl p2))"
  shows "validate_init_data p1 t = validate_init_data p2 t"
  unfolding validate_iff
  using received_hash_cong [OF assms] calculated_hash_sort [OF signed_fields_cong [OF assms], of t]
  by simp



subsection \<open>The source computes the signature of section 4.1\<close>

lemma sorted_pairs_by_key:
  "sorted (map fst xs) \<Longrightarrow> distinct (map fst xs) \<Longrightarrow> sorted xs"
proof (induction xs)
  case Nil
  then show ?case by simp
next
  case (Cons x xs)
  have "x \<le> y" if "y \<in> set xs" for y
  proof -
    have "fst x \<le> fst y" "fst x \<noteq> fst y"
      using Cons.prems that by auto
    then have "fst x < fst y"
      by (simp add: order.strict_iff_order)
    then show ?thesis
      by (simp add: less_eq_prod_def)
  qed
  with Cons show ?case by simp
qed

lemma sort_by_key:
  assumes "distinct (map fst d)"
  shows "sort d = sort_key fst d"
proof (rule properties_for_sort)
  show "mset (sort_key fst d) = mset d" by simp
  have "distinct (map fst (sort_key fst d))"
    using assms by (metis distinct_map distinct_sort set_sort mset_sort mset_map mset_eq_imp_distinct_iff)
  then show "sorted (sort_key fst d)"
    by (intro sorted_pairs_by_key) simp_all
qed

lemma hexdigit_table: "n < 16 \<Longrightarrow> hexdigit n = str ''0123456789abcdef'' ! n"
proof -
  assume n: "n < 16"
  have "list_all (\<lambda>i. hexdigit i = str ''0123456789abcdef'' ! i) [0..<16]"
    by code_simp
  with n show ?thesis
    by (simp add: list_all_iff)
qed

lemma hexdigest_spec: "list_all (\<lambda>b. b < 256) bs \<Longrightarrow> hexdigest bs = spec_lower_hex bs"
proof (induction bs)
  case Nil
  then show ?case by (simp add: hexdigest_def spec_lower_hex_def)
next
  case (Cons b bs)
  then have "b < 256" by simp
  then have "b div 16 < 16" by arith
  then have "b div 16 mod 16 = b div 16" by simp
  with Cons show ?case
    by (simp add: hexdigest_def spec_lower_hex_def hexdigit_table)
qed

lemma length_round_out: "length (round_out t1 t2 st) = length st"
  by (auto simp: round_out_def split: list.splits)

lemma length_round_step: "length (round_step k w st) = length st"
  by (induction k w st rule: round_step.induct) (simp_all add: length_round_out)

lemma length_rounds: "length (rounds ks ws st) = length st"
  by (induction ks ws st rule: rounds.induct) (simp_all add: length_round_step)

lemma length_compress: "length (compress hs ws) = length hs"
  by (simp add: compress_def length_rounds)

lemma length_sha_blocks: "length (sha_blocks hs bs) = length hs"
  by (induction hs bs rule: sha_blocks.induct) (simp_all add: length_compress del: take_Suc_Cons drop_Suc_Cons)

lemma length_concat_word_bytes: "length (concat (map word_bytes ws)) = 4 * length ws"
  by (induction ws) (simp_all add: word_bytes_def)

lemma length_sha256: "length (sha256 m) = 32"
  by (simp add: sha256_def length_concat_word_bytes length_sha_blocks H0_def)

lemma sha256_bytes: "list_all (\<lambda>b. b < 256) (sha256 m)"
  by (simp add: sha256_def list_all_iff word_bytes_def)

lemma length_hmac: "length (hmac_sha256 k m) = 32"
  by (simp add: hmac_sha256_def length_sha256)

lemma hmac_bytes: "list_all (\<lambda>b. b < 256) (hmac_sha256 k m)"
  by (simp add: hmac_sha256_def sha256_bytes)

lemma utf8_encode_cp_error: "utf8_encode_cp c = Inl e \<Longrightarrow> e = UnicodeEncodeError"
  by (simp add: utf8_encode_cp_def split: if_splits)

lemma encode_error: "encode s = Inl e \<Longrightarrow> e = UnicodeEncodeError"
  by (induction s) (auto split: sum.splits dest: utf8_encode_cp_error)

lemma calculated_hash_spec:
  assumes "distinct (map fst d)"
  shows "calculated_hash d t =
           (case spec_signature d t of None \<Rightarrow> Inl UnicodeEncodeError | Some h \<Rightarrow> Inr h)"
proof -
  have "data_check_string d = spec_check_string d"
    by (simp add: data_check_string_def spec_check_string_def sort_by_key [OF assms])
  then show ?thesis
    by (auto simp: calculated_hash_def spec_signature_def hexdigest_spec hmac_bytes
             split: sum.splits dest: encode_error)
qed

lemma length_calculated_hash: "calculated_hash d t = Inr h \<Longrightarrow> length h = 64"
  by (auto simp: calculated_hash_def length_hexdigest length_hmac split: sum.splits)



subsection \<open>Splitting and joining\<close>








subsection \<open>Fields shadowed by a later field\<close>














subsection \<open>The order of the fields\<close>

lemma map_of_single_valued:
  assumes "single_valued (set ps)"
  shows "(map_of ps k = Some v) = ((k, v) \<in> set ps)"
proof
  assume "map_of ps k = Some v"
  then show "(k, v) \<in> set ps" by (rule map_of_SomeD)
next
  assume kv: "(k, v) \<in> set ps"
  then obtain v' where v': "map_of ps k = Some v'"
    by (meson weak_map_of_SomeI)
  then have "(k, v') \<in> set ps" by (rule map_of_SomeD)
  with kv assms have "v' = v" by (meson single_valuedD)
  with v' show "map_of ps k = Some v" by simp
qed

lemma map_of_set_cong:
  assumes "set ps = set qs" "single_valued (set ps)"
  shows "map_of ps = map_of qs"
proof
  fix k
  have h: "(map_of ps k = Some v) = (map_of qs k = Some v)" for v
    using map_of_single_valued [of ps k v] map_of_single_valued [of qs k v] assms by simp
  show "map_of ps k = map_of qs k"
  proof (cases "map_of ps k")
    case None
    then have "map_of qs k \<noteq> Some v" for v
      using h [of v] by simp
    then have "map_of qs k = None"
      by (simp only: not_Some_eq [symmetric]) simp
    with None show ?thesis by simp
  next
    case (Some v)
    with h [of v] show ?thesis by simp
  qed
qed

lemma received_hash_None: "str ''hash'' \<notin> fst ` set (parse_qsl p) \<Longrightarrow> received_hash p = None"
  by (simp add: received_hash_def map_of_dict_of map_of_eq_None_iff)


lemma spec_signature_eq:
  "distinct (map fst d) \<Longrightarrow> (spec_signature d t = Some h) = (calculated_hash d t = Inr h)"
  by (simp add: calculated_hash_spec split: option.splits)

lemma single_valued_distinct_keys: "distinct (map fst ps) \<Longrightarrow> single_valued (set ps)"
  by (auto simp: single_valued_def dest: eq_key_imp_eq_value)

lemma hex_upper_not_lower:
  assumes "list_ex (\<lambda>c. 97 \<le> c \<and> c \<le> 102) h"
  shows "\<not> list_all is_lower_hex (hex_upper h)"
proof -
  from assms obtain c where c: "c \<in> set h" "97 \<le> c" "c \<le> 102"
    by (auto simp: list_ex_iff)
  then have "c - 32 \<in> set (hex_upper h)"
    by (force simp: hex_upper_def)
  moreover have "\<not> is_lower_hex (c - 32)"
    using c by (simp add: is_lower_hex_def) arith
  ultimately show ?thesis
    by (auto simp: list_all_iff)
qed

section \<open>Evaluation on concrete payloads\<close>

text \<open>
  The secret is \<open>s3cr3t\<close>. The digests below are computed by rewriting with the definitions
  of SHA-256 and HMAC.
\<close>

lemma replicate_num: "replicate (numeral k) x = x # replicate (pred_numeral k) x"
  by (simp add: numeral_eq_Suc)

lemmas sha_eval = replicate_num hmac_key_def str_def sha256_def sha_pad_def be64_def
  word_bytes_def H0_def K256_def compress_def round_out_def add32_def rotr_def shr_def
  Ch_def Maj_def Sigma0_def Sigma1_def sigma0_def sigma1_def

lemmas parse_eval = str_def parse_qsl_def parse_field_def str_partition_def unquote_plus_def
  unquote_def replace_plus_def unquote_to_bytes_def hexval_def is_ascii_def is_cont_def
  second_ok_def dict_of_def dict_pop_def signed_fields_def received_hash_def
  data_check_string_def

lemma encode_secret: "encode (str ''s3cr3t'') = Inr [115, 51, 99, 114, 51, 116]"
  by (simp add: str_def utf8_encode_cp_def)

lemma sha_key_inner:
  "sha256 (map (\<lambda>b. b XOR 54) (hmac_key (str ''WebAppData'')) @ [115, 51, 99, 114, 51, 116]) =
     [63, 106, 233, 130, 182, 195, 60, 245, 139, 112, 140, 217, 222, 14, 158, 19, 238, 50, 152, 59, 71, 147, 165, 120, 135, 134, 50, 208, 1, 151, 37, 45]"
  by (simp add: sha_eval)

lemma sha_key_outer:
  "sha256 (map (\<lambda>b. b XOR 92) (hmac_key (str ''WebAppData''))
     @ [63, 106, 233, 130, 182, 195, 60, 245, 139, 112, 140, 217, 222, 14, 158, 19, 238, 50, 152, 59, 71, 147, 165, 120, 135, 134, 50, 208, 1, 151, 37, 45]) =
     [198, 177, 255, 113, 11, 171, 61, 214, 55, 44, 6, 57, 10, 65, 186, 138, 236, 132, 214, 73, 87, 201, 120, 81, 177, 98, 130, 137, 176, 212, 208, 118]"
  by (simp add: sha_eval)

lemma secret_key: "hmac_sha256 (str ''WebAppData'') [115, 51, 99, 114, 51, 116] =
     [198, 177, 255, 113, 11, 171, 61, 214, 55, 44, 6, 57, 10, 65, 186, 138, 236, 132, 214, 73, 87, 201, 120, 81, 177, 98, 130, 137, 176, 212, 208, 118]"
  by (simp only: hmac_sha256_def sha_key_inner sha_key_outer)

text \<open>The signature of the check-string of the scenario.\<close>

lemma encode_cs_100: \<open>encode (str ''auth_date=100'' @ [10] @ str ''user={"id":1}'') = Inr [97, 117, 116, 104, 95, 100, 97, 116, 101, 61, 49, 48, 48, 10, 117, 115, 101, 114, 61, 123, 34, 105, 100, 34, 58, 49, 125]\<close>
  by (simp add: str_def utf8_encode_cp_def)

lemma sha_100_inner:
  "sha256 (map (\<lambda>b. b XOR 54) (hmac_key [198, 177, 255, 113, 11, 171, 61, 214, 55, 44, 6, 57, 10, 65, 186, 138, 236, 132, 214, 73, 87, 201, 120, 81, 177, 98, 130, 137, 176, 212, 208, 118])
     @ [97, 117, 116, 104, 95, 100, 97, 116, 101, 61, 49, 48, 48, 10, 117, 115, 101, 114, 61, 123, 34, 105, 100, 34, 58, 49, 125]) =
     [204, 209, 142, 183, 214, 14, 192, 158, 168, 102, 186, 249, 181, 0, 120, 240, 236, 202, 62, 195, 132, 63, 196, 7, 11, 230, 193, 224, 192, 6, 131, 26]"
  by (simp add: sha_eval)

lemma sha_100_outer:
  "sha256 (map (\<lambda>b. b XOR 92) (hmac_key [198, 177, 255, 113, 11, 171, 61, 214, 55, 44, 6, 57, 10, 65, 186, 138, 236, 132, 214, 73, 87, 201, 120, 81, 177, 98, 130, 137, 176, 212, 208, 118])
     @ [204, 209, 142, 183, 214, 14, 192, 158, 168, 102, 186, 249, 181, 0, 120, 240, 236, 202, 62, 195, 132, 63, 196, 7, 11, 230, 193, 224, 192, 6, 131, 26]) =
     [116, 97, 11, 100, 230, 123, 237, 236, 138, 45, 25, 246, 184, 206, 193, 100, 166, 47, 255, 43, 166, 181, 99, 230, 27, 52, 42, 73, 4, 158, 251, 118]"
  by (simp add: sha_eval)

lemma hmac_100:
  "hmac_sha256 [198, 177, 255, 113, 11, 171, 61, 214, 55, 44, 6, 57, 10, 65, 186, 138, 236, 132, 214, 73, 87, 201, 120, 81, 177, 98, 130, 137, 176, 212, 208, 118]
     [97, 117, 116, 104, 95, 100, 97, 116, 101, 61, 49, 48, 48, 10, 117, 115, 101, 114, 61, 123, 34, 105, 100, 34, 58, 49, 125] =
     [116, 97, 11, 100, 230, 123, 237, 236, 138, 45, 25, 246, 184, 206, 193, 100, 166, 47, 255, 43, 166, 181, 99, 230, 27, 52, 42, 73, 4, 158, 251, 118]"
  by (simp only: hmac_sha256_def sha_100_inner sha_100_outer)

lemma hex_100:
  "hexdigest [116, 97, 11, 100, 230, 123, 237, 236, 138, 45, 25, 246, 184, 206, 193, 100, 166, 47, 255, 43, 166, 181, 99, 230, 27, 52, 42, 73, 4, 158, 251, 118] =
     str ''74610b64e67bedec8a2d19f6b8cec164a62fff2ba6b563e61b342a49049efb76''"
  by (simp add: hexdigest_def hexdigit_def str_def)

lemma calculated_100:
  assumes \<open>data_check_string d = str ''auth_date=100'' @ [10] @ str ''user={"id":1}''\<close>
  shows "calculated_hash d (str ''s3cr3t'') = Inr (str ''74610b64e67bedec8a2d19f6b8cec164a62fff2ba6b563e61b342a49049efb76'')"
  by (simp only: calculated_hash_def assms encode_secret encode_cs_100 sum.case secret_key hmac_100 hex_100)

text \<open>The signature of the same with \<open>auth_date=101\<close>.\<close>

lemma encode_cs_101: \<open>encode (str ''auth_date=101'' @ [10] @ str ''user={"id":1}'') = Inr [97, 117, 116, 104, 95, 100, 97, 116, 101, 61, 49, 48, 49, 10, 117, 115, 101, 114, 61, 123, 34, 105, 100, 34, 58, 49, 125]\<close>
  by (simp add: str_def utf8_encode_cp_def)

lemma sha_101_inner:
  "sha256 (map (\<lambda>b. b XOR 54) (hmac_key [198, 177, 255, 113, 11, 171, 61, 214, 55, 44, 6, 57, 10, 65, 186, 138, 236, 132, 214, 73, 87, 201, 120, 81, 177, 98, 130, 137, 176, 212, 208, 118])
     @ [97, 117, 116, 104, 95, 100, 97, 116, 101, 61, 49, 48, 49, 10, 117, 115, 101, 114, 61, 123, 34, 105, 100, 34, 58, 49, 125]) =
     [40, 173, 236, 73, 101, 205, 250, 220, 102, 169, 84, 240, 100, 155, 110, 236, 173, 228, 252, 252, 76, 52, 50, 1, 213, 160, 197, 247, 113, 17, 125, 118]"
  by (simp add: sha_eval)

lemma sha_101_outer:
  "sha256 (map (\<lambda>b. b XOR 92) (hmac_key [198, 177, 255, 113, 11, 171, 61, 214, 55, 44, 6, 57, 10, 65, 186, 138, 236, 132, 214, 73, 87, 201, 120, 81, 177, 98, 130, 137, 176, 212, 208, 118])
     @ [40, 173, 236, 73, 101, 205, 250, 220, 102, 169, 84, 240, 100, 155, 110, 236, 173, 228, 252, 252, 76, 52, 50, 1, 213, 160, 197, 247, 113, 17, 125, 118]) =
     [185, 178, 193, 172, 162, 106, 29, 162, 37, 234, 166, 162, 193, 70, 112, 43, 231, 97, 2, 21, 179, 40, 169, 135, 43, 191, 9, 219, 115, 14, 173, 1]"
  by (simp add: sha_eval)

lemma hmac_101:
  "hmac_sha256 [198, 177, 255, 113, 11, 171, 61, 214, 55, 44, 6, 57, 10, 65, 186, 138, 236, 132, 214, 73, 87, 201, 120, 81, 177, 98, 130, 137, 176, 212, 208, 118]
     [97, 117, 116, 104, 95, 100, 97, 116, 101, 61, 49, 48, 49, 10, 117, 115, 101, 114, 61, 123, 34, 105, 100, 34, 58, 49, 125] =
     [185, 178, 193, 172, 162, 106, 29, 162, 37, 234, 166, 162, 193, 70, 112, 43, 231, 97, 2, 21, 179, 40, 169, 135, 43, 191, 9, 219, 115, 14, 173, 1]"
  by (simp only: hmac_sha256_def sha_101_inner sha_101_outer)

lemma hex_101:
  "hexdigest [185, 178, 193, 172, 162, 106, 29, 162, 37, 234, 166, 162, 193, 70, 112, 43, 231, 97, 2, 21, 179, 40, 169, 135, 43, 191, 9, 219, 115, 14, 173, 1] =
     str ''b9b2c1aca26a1da225eaa6a2c146702be7610215b328a9872bbf09db730ead01''"
  by (simp add: hexdigest_def hexdigit_def str_def)

lemma calculated_101:
  assumes \<open>data_check_string d = str ''auth_date=101'' @ [10] @ str ''user={"id":1}''\<close>
  shows "calculated_hash d (str ''s3cr3t'') = Inr (str ''b9b2c1aca26a1da225eaa6a2c146702be7610215b328a9872bbf09db730ead01'')"
  by (simp only: calculated_hash_def assms encode_secret encode_cs_101 sum.case secret_key hmac_101 hex_101)

text \<open>The signature of a check-string with U+FFFD and a stray \<open>%7\<close>.\<close>

lemma encode_cs_bad: \<open>encode (str ''auth_date=100'' @ [10] @ str ''user='' @ [65533] @ str ''%7'') = Inr [97, 117, 116, 104, 95, 100, 97, 116, 101, 61, 49, 48, 48, 10, 117, 115, 101, 114, 61, 239, 191, 189, 37, 55]\<close>
  by (simp add: str_def utf8_encode_cp_def)

lemma sha_bad_inner:
  "sha256 (map (\<lambda>b. b XOR 54) (hmac_key [198, 177, 255, 113, 11, 171, 61, 214, 55, 44, 6, 57, 10, 65, 186, 138, 236, 132, 214, 73, 87, 201, 120, 81, 177, 98, 130, 137, 176, 212, 208, 118])
     @ [97, 117, 116, 104, 95, 100, 97, 116, 101, 61, 49, 48, 48, 10, 117, 115, 101, 114, 61, 239, 191, 189, 37, 55]) =
     [229, 176, 115, 115, 59, 144, 136, 58, 48, 115, 243, 99, 58, 74, 19, 9, 169, 86, 88, 135, 162, 62, 80, 182, 218, 104, 18, 141, 252, 157, 138, 54]"
  by (simp add: sha_eval)

lemma sha_bad_outer:
  "sha256 (map (\<lambda>b. b XOR 92) (hmac_key [198, 177, 255, 113, 11, 171, 61, 214, 55, 44, 6, 57, 10, 65, 186, 138, 236, 132, 214, 73, 87, 201, 120, 81, 177, 98, 130, 137, 176, 212, 208, 118])
     @ [229, 176, 115, 115, 59, 144, 136, 58, 48, 115, 243, 99, 58, 74, 19, 9, 169, 86, 88, 135, 162, 62, 80, 182, 218, 104, 18, 141, 252, 157, 138, 54]) =
     [203, 37, 38, 132, 19, 133, 221, 221, 236, 187, 92, 167, 155, 102, 69, 229, 50, 8, 174, 4, 205, 121, 189, 245, 228, 207, 102, 56, 201, 11, 175, 177]"
  by (simp add: sha_eval)

lemma hmac_bad:
  "hmac_sha256 [198, 177, 255, 113, 11, 171, 61, 214, 55, 44, 6, 57, 10, 65, 186, 138, 236, 132, 214, 73, 87, 201, 120, 81, 177, 98, 130, 137, 176, 212, 208, 118]
     [97, 117, 116, 104, 95, 100, 97, 116, 101, 61, 49, 48, 48, 10, 117, 115, 101, 114, 61, 239, 191, 189, 37, 55] =
     [203, 37, 38, 132, 19, 133, 221, 221, 236, 187, 92, 167, 155, 102, 69, 229, 50, 8, 174, 4, 205, 121, 189, 245, 228, 207, 102, 56, 201, 11, 175, 177]"
  by (simp only: hmac_sha256_def sha_bad_inner sha_bad_outer)

lemma hex_bad:
  "hexdigest [203, 37, 38, 132, 19, 133, 221, 221, 236, 187, 92, 167, 155, 102, 69, 229, 50, 8, 174, 4, 205, 121, 189, 245, 228, 207, 102, 56, 201, 11, 175, 177] =
     str ''cb2526841385ddddecbb5ca79b6645e53208ae04cd79bdf5e4cf6638c90bafb1''"
  by (simp add: hexdigest_def hexdigit_def str_def)

lemma calculated_bad:
  assumes \<open>data_check_string d = str ''auth_date=100'' @ [10] @ str ''user='' @ [65533] @ str ''%7''\<close>
  shows "calculated_hash d (str ''s3cr3t'') = Inr (str ''cb2526841385ddddecbb5ca79b6645e53208ae04cd79bdf5e4cf6638c90bafb1'')"
  by (simp only: calculated_hash_def assms encode_secret encode_cs_bad sum.case secret_key hmac_bad hex_bad)

text \<open>What the verifier reads in the payloads used below.\<close>

lemma received_signed: "received_hash (str ''auth_date=100&user=%7B%22id%22%3A1%7D&hash=74610b64e67bedec8a2d19f6b8cec164a62fff2ba6b563e61b342a49049efb76'') = Some (str ''74610b64e67bedec8a2d19f6b8cec164a62fff2ba6b563e61b342a49049efb76'')"
  by (simp add: parse_eval)

lemma check_string_signed:
  \<open>data_check_string (signed_fields (str ''auth_date=100&user=%7B%22id%22%3A1%7D&hash=74610b64e67bedec8a2d19f6b8cec164a62fff2ba6b563e61b342a49049efb76'')) = str ''auth_date=100'' @ [10] @ str ''user={"id":1}''\<close>
  by (simp add: parse_eval)

lemma calculated_signed:
  "calculated_hash (signed_fields (str ''auth_date=100&user=%7B%22id%22%3A1%7D&hash=74610b64e67bedec8a2d19f6b8cec164a62fff2ba6b563e61b342a49049efb76'')) (str ''s3cr3t'') = Inr (str ''74610b64e67bedec8a2d19f6b8cec164a62fff2ba6b563e61b342a49049efb76'')"
  by (rule calculated_100) (rule check_string_signed)

lemma received_changed: "received_hash (str ''auth_date=101&user=%7B%22id%22%3A1%7D&hash=74610b64e67bedec8a2d19f6b8cec164a62fff2ba6b563e61b342a49049efb76'') = Some (str ''74610b64e67bedec8a2d19f6b8cec164a62fff2ba6b563e61b342a49049efb76'')"
  by (simp add: parse_eval)

lemma check_string_changed:
  \<open>data_check_string (signed_fields (str ''auth_date=101&user=%7B%22id%22%3A1%7D&hash=74610b64e67bedec8a2d19f6b8cec164a62fff2ba6b563e61b342a49049efb76'')) = str ''auth_date=101'' @ [10] @ str ''user={"id":1}''\<close>
  by (simp add: parse_eval)

lemma calculated_changed:
  "calculated_hash (signed_fields (str ''auth_date=101&user=%7B%22id%22%3A1%7D&hash=74610b64e67bedec8a2d19f6b8cec164a62fff2ba6b563e61b342a49049efb76'')) (str ''s3cr3t'') = Inr (str ''b9b2c1aca26a1da225eaa6a2c146702be7610215b328a9872bbf09db730ead01'')"
  by (rule calculated_101) (rule check_string_changed)




lemma received_upper_hash: "received_hash (str ''auth_date=100&user=%7B%22id%22%3A1%7D&hash=74610B64E67BEDEC8A2D19F6B8CEC164A62FFF2BA6B563E61B342A49049EFB76'') = Some (str ''74610B64E67BEDEC8A2D19F6B8CEC164A62FFF2BA6B563E61B342A49049EFB76'')"
  by (simp add: parse_eval)

lemma check_string_upper_hash:
  \<open>data_check_string (signed_fields (str ''auth_date=100&user=%7B%22id%22%3A1%7D&hash=74610B64E67BEDEC8A2D19F6B8CEC164A62FFF2BA6B563E61B342A49049EFB76'')) = str ''auth_date=100'' @ [10] @ str ''user={"id":1}''\<close>
  by (simp add: parse_eval)

lemma calculated_upper_hash:
  "calculated_hash (signed_fields (str ''auth_date=100&user=%7B%22id%22%3A1%7D&hash=74610B64E67BEDEC8A2D19F6B8CEC164A62FFF2BA6B563E61B342A49049EFB76'')) (str ''s3cr3t'') = Inr (str ''74610b64e67bedec8a2d19f6b8cec164a62fff2ba6b563e61b342a49049efb76'')"
  by (rule calculated_100) (rule check_string_upper_hash)

lemma received_last_100: "received_hash (str ''auth_date=101&auth_date=100&user=%7B%22id%22%3A1%7D&hash=74610b64e67bedec8a2d19f6b8cec164a62fff2ba6b563e61b342a49049efb76'') = Some (str ''74610b64e67bedec8a2d19f6b8cec164a62fff2ba6b563e61b342a49049efb76'')"
  by (simp add: parse_eval)

lemma check_string_last_100:
  \<open>data_check_string (signed_fields (str ''auth_date=101&auth_date=100&user=%7B%22id%22%3A1%7D&hash=74610b64e67bedec8a2d19f6b8cec164a62fff2ba6b563e61b342a49049efb76'')) = str ''auth_date=100'' @ [10] @ str ''user={"id":1}''\<close>
  by (simp add: parse_eval)

lemma calculated_last_100:
  "calculated_hash (signed_fields (str ''auth_date=101&auth_date=100&user=%7B%22id%22%3A1%7D&hash=74610b64e67bedec8a2d19f6b8cec164a62fff2ba6b563e61b342a49049efb76'')) (str ''s3cr3t'') = Inr (str ''74610b64e67bedec8a2d19f6b8cec164a62fff2ba6b563e61b342a49049efb76'')"
  by (rule calculated_100) (rule check_string_last_100)

lemma received_last_101: "received_hash (str ''auth_date=100&auth_date=101&user=%7B%22id%22%3A1%7D&hash=74610b64e67bedec8a2d19f6b8cec164a62fff2ba6b563e61b342a49049efb76'') = Some (str ''74610b64e67bedec8a2d19f6b8cec164a62fff2ba6b563e61b342a49049efb76'')"
  by (simp add: parse_eval)

lemma check_string_last_101:
  \<open>data_check_string (signed_fields (str ''auth_date=100&auth_date=101&user=%7B%22id%22%3A1%7D&hash=74610b64e67bedec8a2d19f6b8cec164a62fff2ba6b563e61b342a49049efb76'')) = str ''auth_date=101'' @ [10] @ str ''user={"id":1}''\<close>
  by (simp add: parse_eval)

lemma calculated_last_101:
  "calculated_hash (signed_fields (str ''auth_date=100&auth_date=101&user=%7B%22id%22%3A1%7D&hash=74610b64e67bedec8a2d19f6b8cec164a62fff2ba6b563e61b342a49049efb76'')) (str ''s3cr3t'') = Inr (str ''b9b2c1aca26a1da225eaa6a2c146702be7610215b328a9872bbf09db730ead01'')"
  by (rule calculated_101) (rule check_string_last_101)

lemma received_reordered: "received_hash (str ''user=%7B%22id%22%3A1%7D&hash=74610b64e67bedec8a2d19f6b8cec164a62fff2ba6b563e61b342a49049efb76&auth_date=100'') = Some (str ''74610b64e67bedec8a2d19f6b8cec164a62fff2ba6b563e61b342a49049efb76'')"
  by (simp add: parse_eval)

lemma check_string_reordered:
  \<open>data_check_string (signed_fields (str ''user=%7B%22id%22%3A1%7D&hash=74610b64e67bedec8a2d19f6b8cec164a62fff2ba6b563e61b342a49049efb76&auth_date=100'')) = str ''auth_date=100'' @ [10] @ str ''user={"id":1}''\<close>
  by (simp add: parse_eval)

lemma calculated_reordered:
  "calculated_hash (signed_fields (str ''user=%7B%22id%22%3A1%7D&hash=74610b64e67bedec8a2d19f6b8cec164a62fff2ba6b563e61b342a49049efb76&auth_date=100'')) (str ''s3cr3t'') = Inr (str ''74610b64e67bedec8a2d19f6b8cec164a62fff2ba6b563e61b342a49049efb76'')"
  by (rule calculated_100) (rule check_string_reordered)

lemma received_lenient: "received_hash (str ''auth_date=100&user=%FF%7&hash=cb2526841385ddddecbb5ca79b6645e53208ae04cd79bdf5e4cf6638c90bafb1'') = Some (str ''cb2526841385ddddecbb5ca79b6645e53208ae04cd79bdf5e4cf6638c90bafb1'')"
  by (simp add: parse_eval)

lemma check_string_lenient:
  \<open>data_check_string (signed_fields (str ''auth_date=100&user=%FF%7&hash=cb2526841385ddddecbb5ca79b6645e53208ae04cd79bdf5e4cf6638c90bafb1'')) = str ''auth_date=100'' @ [10] @ str ''user='' @ [65533] @ str ''%7''\<close>
  by (simp add: parse_eval)

lemma calculated_lenient:
  "calculated_hash (signed_fields (str ''auth_date=100&user=%FF%7&hash=cb2526841385ddddecbb5ca79b6645e53208ae04cd79bdf5e4cf6638c90bafb1'')) (str ''s3cr3t'') = Inr (str ''cb2526841385ddddecbb5ca79b6645e53208ae04cd79bdf5e4cf6638c90bafb1'')"
  by (rule calculated_bad) (rule check_string_lenient)

lemma valid_signed: "validate_init_data (str ''auth_date=100&user=%7B%22id%22%3A1%7D&hash=74610b64e67bedec8a2d19f6b8cec164a62fff2ba6b563e61b342a49049efb76'') (str ''s3cr3t'')"
  unfolding validate_iff using received_signed calculated_signed by simp

lemma invalid_changed: "\<not> validate_init_data (str ''auth_date=101&user=%7B%22id%22%3A1%7D&hash=74610b64e67bedec8a2d19f6b8cec164a62fff2ba6b563e61b342a49049efb76'') (str ''s3cr3t'')"
  unfolding validate_iff using received_changed calculated_changed by (simp add: str_def)

lemma remove_shadowed_example:
  "remove_shadowed (str ''a=1&b=2&a=3&hash=x&b=&a=4'') = str ''b=2&hash=x&b=&a=4''"
  by (simp add: remove_shadowed_def field_keys_def parse_eval)

section \<open>The claims\<close>

text \<open>
  C1. For every payload and every secret, the verifier returns valid if and only if the
  payload has a \<open>hash\<close> field whose value equals the signature recomputed from the
  remaining fields with the secret by the two-stage HMAC-SHA256 scheme of section 4.1; in
  every other case (no \<open>hash\<close> field, no signature because a string cannot be encoded, a
  different value) it returns invalid.
\<close>

theorem validate_iff_signature:
  "validate_init_data p t \<longleftrightarrow>
     (\<exists>h. received_hash p = Some h \<and> spec_signature (signed_fields p) t = Some h)"
  by (simp add: validate_iff spec_signature_eq [OF distinct_signed_fields])

text \<open>
  C2, as stated: every malformed input, a truncated percent-escape or bytes that are not
  UTF-8 among them, is mapped to invalid. The code does not do that: \<^verbatim>\<open>parse_qsl\<close> keeps a
  truncated escape as text and turns undecodable bytes into U+FFFD, and the payload below,
  which holds both, is valid because its hash is the signature of the fields so decoded.
\<close>

theorem lenient_decoding_counterexample:
  "validate_init_data (str ''auth_date=100&user=%FF%7&hash=cb2526841385ddddecbb5ca79b6645e53208ae04cd79bdf5e4cf6638c90bafb1'') (str ''s3cr3t'')"
  unfolding validate_iff using received_lenient calculated_lenient by simp

text \<open>
  C2, amended: the verifier never raises. Whenever the body of the \<^verbatim>\<open>try\<close> block raises,
  the result is invalid; and the body raises only when there is a \<open>hash\<close> field and either
  the secret or the check-string has no UTF-8 encoding (a lone surrogate), or the received
  hash is not ASCII.
\<close>

theorem validate_fail_closed:
  assumes "validate_body p t = Inl e"
  shows "validate_init_data p t = False \<and>
         (\<exists>h. received_hash p = Some h \<and>
              (encode t = Inl e \<or> encode (data_check_string (signed_fields p)) = Inl e
               \<or> (\<not> list_all is_ascii h \<and> e = TypeError)))"
proof -
  have "validate_init_data p t = False"
    using assms by (simp add: validate_init_data_def)
  moreover have "\<exists>h. received_hash p = Some h \<and>
              (encode t = Inl e \<or> encode (data_check_string (signed_fields p)) = Inl e
               \<or> (\<not> list_all is_ascii h \<and> e = TypeError))"
    using assms
    by (auto simp: validate_body_alt calculated_hash_def compare_digest_def hexdigest_ascii
             split: option.splits sum.splits if_splits)
  ultimately show ?thesis by simp
qed

theorem validate_fail_closed_witness:
  "validate_body (str ''hash=ab'') [0xD800] = Inl UnicodeEncodeError
   \<and> validate_init_data (str ''hash=ab'') [0xD800] = False"
proof -
  have h: "validate_body (str ''hash=ab'') [0xD800] = Inl UnicodeEncodeError"
    by (simp add: validate_body_def calculated_hash_def utf8_encode_cp_def parse_eval)
  from validate_fail_closed [OF h] show ?thesis
    using h by simp
qed

text \<open>
  C3. The signature that the verifier compares with the \<open>hash\<close> field is the one of
  section 4.1: the remaining pairs sorted by key and joined as \<open>key=value\<close> lines, the
  secondary key the HMAC-SHA256 of the secret under the key \<open>WebAppData\<close>, the result the
  HMAC-SHA256 of the check-string under the secondary key, in 64 lowercase hexadecimal
  digits. Where that signature does not exist, the source raises \<^verbatim>\<open>UnicodeEncodeError\<close>.
\<close>

theorem calculated_hash_refines_spec:
  "calculated_hash (signed_fields p) t =
     (case spec_signature (signed_fields p) t of
        None \<Rightarrow> Inl UnicodeEncodeError
      | Some h \<Rightarrow> Inr h)
   \<and> (case calculated_hash (signed_fields p) t of
        Inl e \<Rightarrow> True
      | Inr h \<Rightarrow> list_all is_lower_hex h \<and> length h = 64)"
proof (intro conjI)
  show "calculated_hash (signed_fields p) t =
     (case spec_signature (signed_fields p) t of
        None \<Rightarrow> Inl UnicodeEncodeError
      | Some h \<Rightarrow> Inr h)"
    by (rule calculated_hash_spec [OF distinct_signed_fields])
  show "case calculated_hash (signed_fields p) t of
        Inl e \<Rightarrow> True
      | Inr h \<Rightarrow> list_all is_lower_hex h \<and> length h = 64"
    by (auto split: sum.splits dest: calculated_hash_lower length_calculated_hash)
qed

text \<open>
  C4. A payload whose parsed pairs have no key \<open>hash\<close> is invalid under every secret.
\<close>

theorem no_hash_invalid:
  assumes "str ''hash'' \<notin> fst ` set (parse_qsl p)"
  shows "validate_init_data p t = False"
  using received_hash_None [OF assms] by (simp add: validate_iff)

theorem no_hash_invalid_witness:
  "str ''hash'' \<notin> fst ` set (parse_qsl (str ''auth_date=100&user=%7B%22id%22%3A1%7D''))
   \<and> validate_init_data (str ''auth_date=100&user=%7B%22id%22%3A1%7D'') (str ''s3cr3t'') = False"
proof -
  have h: "str ''hash'' \<notin> fst ` set (parse_qsl (str ''auth_date=100&user=%7B%22id%22%3A1%7D''))"
    by (simp add: parse_eval)
  from no_hash_invalid [OF h] show ?thesis
    using h by simp
qed

text \<open>
  C5. The scenario of the specification: the secret is \<open>s3cr3t\<close>, \<open>H\<close> is the signature of
  section 4.1 for the pairs \<open>auth_date=100\<close> and \<open>user={"id":1}\<close>, whose check-string is
  these two lines. The payload that carries \<open>H\<close> is valid; with \<open>auth_date\<close> changed to
  \<open>101\<close> and the same \<open>H\<close> it is invalid.
\<close>

theorem concrete_scenario:
  \<open>spec_check_string [(str ''auth_date'', str ''100''), (str ''user'', str ''{"id":1}'')] = str ''auth_date=100'' @ [10] @ str ''user={"id":1}''
   \<and> spec_signature [(str ''auth_date'', str ''100''), (str ''user'', str ''{"id":1}'')] (str ''s3cr3t'') = Some (str ''74610b64e67bedec8a2d19f6b8cec164a62fff2ba6b563e61b342a49049efb76'')
   \<and> validate_init_data (str ''auth_date=100&user=%7B%22id%22%3A1%7D&hash=74610b64e67bedec8a2d19f6b8cec164a62fff2ba6b563e61b342a49049efb76'') (str ''s3cr3t'') = True
   \<and> validate_init_data (str ''auth_date=101&user=%7B%22id%22%3A1%7D&hash=74610b64e67bedec8a2d19f6b8cec164a62fff2ba6b563e61b342a49049efb76'') (str ''s3cr3t'') = False\<close>
proof -
  have d: \<open>distinct (map fst [(str ''auth_date'', str ''100''), (str ''user'', str ''{"id":1}'')])\<close>
    by (simp add: str_def)
  have c: \<open>spec_check_string [(str ''auth_date'', str ''100''), (str ''user'', str ''{"id":1}'')] = str ''auth_date=100'' @ [10] @ str ''user={"id":1}''\<close>
    by (simp add: spec_check_string_def str_def)
  have \<open>data_check_string [(str ''auth_date'', str ''100''), (str ''user'', str ''{"id":1}'')] = str ''auth_date=100'' @ [10] @ str ''user={"id":1}''\<close>
    by (simp add: data_check_string_def str_def)
  then have \<open>calculated_hash [(str ''auth_date'', str ''100''), (str ''user'', str ''{"id":1}'')] (str ''s3cr3t'') = Inr (str ''74610b64e67bedec8a2d19f6b8cec164a62fff2ba6b563e61b342a49049efb76'')\<close>
    by (rule calculated_100)
  then have s: \<open>spec_signature [(str ''auth_date'', str ''100''), (str ''user'', str ''{"id":1}'')] (str ''s3cr3t'') = Some (str ''74610b64e67bedec8a2d19f6b8cec164a62fff2ba6b563e61b342a49049efb76'')\<close>
    by (simp only: spec_signature_eq [OF d])
  show ?thesis
    using c s valid_signed invalid_changed by simp
qed

text \<open>
  C6, as stated: two payloads whose pairs are the same set in another order get the same
  result. The dictionary keeps the last value of a key, so the order matters where a key
  comes twice with different values: the two payloads below have the same pairs and the
  same hash, and only the first is valid.
\<close>

theorem field_order_counterexample:
  "set (parse_qsl (str ''auth_date=101&auth_date=100&user=%7B%22id%22%3A1%7D&hash=74610b64e67bedec8a2d19f6b8cec164a62fff2ba6b563e61b342a49049efb76''))
     = set (parse_qsl (str ''auth_date=100&auth_date=101&user=%7B%22id%22%3A1%7D&hash=74610b64e67bedec8a2d19f6b8cec164a62fff2ba6b563e61b342a49049efb76''))
   \<and> received_hash (str ''auth_date=101&auth_date=100&user=%7B%22id%22%3A1%7D&hash=74610b64e67bedec8a2d19f6b8cec164a62fff2ba6b563e61b342a49049efb76'')
     = received_hash (str ''auth_date=100&auth_date=101&user=%7B%22id%22%3A1%7D&hash=74610b64e67bedec8a2d19f6b8cec164a62fff2ba6b563e61b342a49049efb76'')
   \<and> validate_init_data (str ''auth_date=101&auth_date=100&user=%7B%22id%22%3A1%7D&hash=74610b64e67bedec8a2d19f6b8cec164a62fff2ba6b563e61b342a49049efb76'') (str ''s3cr3t'')
   \<and> \<not> validate_init_data (str ''auth_date=100&auth_date=101&user=%7B%22id%22%3A1%7D&hash=74610b64e67bedec8a2d19f6b8cec164a62fff2ba6b563e61b342a49049efb76'') (str ''s3cr3t'')"
proof -
  have "set (parse_qsl (str ''auth_date=101&auth_date=100&user=%7B%22id%22%3A1%7D&hash=74610b64e67bedec8a2d19f6b8cec164a62fff2ba6b563e61b342a49049efb76''))
     = set (parse_qsl (str ''auth_date=100&auth_date=101&user=%7B%22id%22%3A1%7D&hash=74610b64e67bedec8a2d19f6b8cec164a62fff2ba6b563e61b342a49049efb76''))"
    by (simp add: parse_eval insert_commute)
  moreover have "received_hash (str ''auth_date=101&auth_date=100&user=%7B%22id%22%3A1%7D&hash=74610b64e67bedec8a2d19f6b8cec164a62fff2ba6b563e61b342a49049efb76'')
     = received_hash (str ''auth_date=100&auth_date=101&user=%7B%22id%22%3A1%7D&hash=74610b64e67bedec8a2d19f6b8cec164a62fff2ba6b563e61b342a49049efb76'')"
    by (simp only: received_last_100 received_last_101)
  moreover have "validate_init_data (str ''auth_date=101&auth_date=100&user=%7B%22id%22%3A1%7D&hash=74610b64e67bedec8a2d19f6b8cec164a62fff2ba6b563e61b342a49049efb76'') (str ''s3cr3t'')"
    unfolding validate_iff using received_last_100 calculated_last_100 by simp
  moreover have "\<not> validate_init_data (str ''auth_date=100&auth_date=101&user=%7B%22id%22%3A1%7D&hash=74610b64e67bedec8a2d19f6b8cec164a62fff2ba6b563e61b342a49049efb76'') (str ''s3cr3t'')"
    unfolding validate_iff using received_last_101 calculated_last_101 by (simp add: str_def)
  ultimately show ?thesis
    by blast
qed

text \<open>
  C6, amended: two calls with the same payload and the same secret give the same result;
  and two payloads whose parsed pairs are the same set, no key of which has two different
  values, get the same result under every secret, whatever the order of the fields.
\<close>

theorem field_order_independent:
  assumes "p1 = p2
           \<or> (set (parse_qsl p1) = set (parse_qsl p2) \<and> single_valued (set (parse_qsl p1)))"
  shows "validate_init_data p1 t = validate_init_data p2 t"
proof (cases "p1 = p2")
  case True
  then show ?thesis by simp
next
  case False
  with assms have s: "set (parse_qsl p1) = set (parse_qsl p2)"
    and v: "single_valued (set (parse_qsl p1))"
    by blast+
  show ?thesis
  proof (rule validate_cong, rule map_of_set_cong)
    show "set (rev (parse_qsl p1)) = set (rev (parse_qsl p2))"
      using s by simp
    show "single_valued (set (rev (parse_qsl p1)))"
      using v by simp
  qed
qed

theorem field_order_independent_witness:
  "set (parse_qsl (str ''auth_date=100&user=%7B%22id%22%3A1%7D&hash=74610b64e67bedec8a2d19f6b8cec164a62fff2ba6b563e61b342a49049efb76''))
     = set (parse_qsl (str ''user=%7B%22id%22%3A1%7D&hash=74610b64e67bedec8a2d19f6b8cec164a62fff2ba6b563e61b342a49049efb76&auth_date=100''))
   \<and> single_valued (set (parse_qsl (str ''auth_date=100&user=%7B%22id%22%3A1%7D&hash=74610b64e67bedec8a2d19f6b8cec164a62fff2ba6b563e61b342a49049efb76'')))
   \<and> validate_init_data (str ''user=%7B%22id%22%3A1%7D&hash=74610b64e67bedec8a2d19f6b8cec164a62fff2ba6b563e61b342a49049efb76&auth_date=100'') (str ''s3cr3t'')"
proof -
  have h1: "set (parse_qsl (str ''auth_date=100&user=%7B%22id%22%3A1%7D&hash=74610b64e67bedec8a2d19f6b8cec164a62fff2ba6b563e61b342a49049efb76''))
     = set (parse_qsl (str ''user=%7B%22id%22%3A1%7D&hash=74610b64e67bedec8a2d19f6b8cec164a62fff2ba6b563e61b342a49049efb76&auth_date=100''))"
    by (simp add: parse_eval insert_commute)
  have "distinct (map fst (parse_qsl (str ''auth_date=100&user=%7B%22id%22%3A1%7D&hash=74610b64e67bedec8a2d19f6b8cec164a62fff2ba6b563e61b342a49049efb76'')))"
    by (simp add: parse_eval)
  then have h2: "single_valued (set (parse_qsl (str ''auth_date=100&user=%7B%22id%22%3A1%7D&hash=74610b64e67bedec8a2d19f6b8cec164a62fff2ba6b563e61b342a49049efb76'')))"
    by (rule single_valued_distinct_keys)
  from h1 h2 have "str ''auth_date=100&user=%7B%22id%22%3A1%7D&hash=74610b64e67bedec8a2d19f6b8cec164a62fff2ba6b563e61b342a49049efb76''
      = str ''user=%7B%22id%22%3A1%7D&hash=74610b64e67bedec8a2d19f6b8cec164a62fff2ba6b563e61b342a49049efb76&auth_date=100''
    \<or> (set (parse_qsl (str ''auth_date=100&user=%7B%22id%22%3A1%7D&hash=74610b64e67bedec8a2d19f6b8cec164a62fff2ba6b563e61b342a49049efb76''))
         = set (parse_qsl (str ''user=%7B%22id%22%3A1%7D&hash=74610b64e67bedec8a2d19f6b8cec164a62fff2ba6b563e61b342a49049efb76&auth_date=100''))
       \<and> single_valued (set (parse_qsl (str ''auth_date=100&user=%7B%22id%22%3A1%7D&hash=74610b64e67bedec8a2d19f6b8cec164a62fff2ba6b563e61b342a49049efb76''))))"
    by blast
  from field_order_independent [OF this, of "str ''s3cr3t''"] valid_signed
  have "validate_init_data (str ''user=%7B%22id%22%3A1%7D&hash=74610b64e67bedec8a2d19f6b8cec164a62fff2ba6b563e61b342a49049efb76&auth_date=100'') (str ''s3cr3t'')"
    by simp
  with h1 h2 show ?thesis by blast
qed





text \<open>
  C10. The comparison is case-sensitive and the recomputed signature is lowercase: if a
  payload is valid and its signature has a letter among its digits, then a payload with the
  same fields and the hash in uppercase is invalid.
\<close>

theorem uppercase_hash_rejected:
  assumes "validate_init_data p t"
    and "received_hash p = Some h"
    and "list_ex (\<lambda>c. 97 \<le> c \<and> c \<le> 102) h"
    and "signed_fields p' = signed_fields p"
    and "received_hash p' = Some (hex_upper h)"
  shows "\<not> validate_init_data p' t"
proof
  assume "validate_init_data p' t"
  then have "calculated_hash (signed_fields p') t = Inr (hex_upper h)"
    using assms(5) by (simp add: validate_iff)
  then have "list_all is_lower_hex (hex_upper h)"
    by (rule calculated_hash_lower)
  with hex_upper_not_lower [OF assms(3)] show False
    by simp
qed

theorem uppercase_hash_rejected_witness:
  "received_hash (str ''auth_date=100&user=%7B%22id%22%3A1%7D&hash=74610b64e67bedec8a2d19f6b8cec164a62fff2ba6b563e61b342a49049efb76'') = Some (str ''74610b64e67bedec8a2d19f6b8cec164a62fff2ba6b563e61b342a49049efb76'')
   \<and> list_ex (\<lambda>c. 97 \<le> c \<and> c \<le> 102) (str ''74610b64e67bedec8a2d19f6b8cec164a62fff2ba6b563e61b342a49049efb76'')
   \<and> signed_fields (str ''auth_date=100&user=%7B%22id%22%3A1%7D&hash=74610B64E67BEDEC8A2D19F6B8CEC164A62FFF2BA6B563E61B342A49049EFB76'')
     = signed_fields (str ''auth_date=100&user=%7B%22id%22%3A1%7D&hash=74610b64e67bedec8a2d19f6b8cec164a62fff2ba6b563e61b342a49049efb76'')
   \<and> received_hash (str ''auth_date=100&user=%7B%22id%22%3A1%7D&hash=74610B64E67BEDEC8A2D19F6B8CEC164A62FFF2BA6B563E61B342A49049EFB76'')
     = Some (hex_upper (str ''74610b64e67bedec8a2d19f6b8cec164a62fff2ba6b563e61b342a49049efb76''))
   \<and> \<not> validate_init_data (str ''auth_date=100&user=%7B%22id%22%3A1%7D&hash=74610B64E67BEDEC8A2D19F6B8CEC164A62FFF2BA6B563E61B342A49049EFB76'') (str ''s3cr3t'')"
proof -
  have h3: "list_ex (\<lambda>c. 97 \<le> c \<and> c \<le> 102) (str ''74610b64e67bedec8a2d19f6b8cec164a62fff2ba6b563e61b342a49049efb76'')"
    by (simp add: str_def)
  have h4: "signed_fields (str ''auth_date=100&user=%7B%22id%22%3A1%7D&hash=74610B64E67BEDEC8A2D19F6B8CEC164A62FFF2BA6B563E61B342A49049EFB76'')
     = signed_fields (str ''auth_date=100&user=%7B%22id%22%3A1%7D&hash=74610b64e67bedec8a2d19f6b8cec164a62fff2ba6b563e61b342a49049efb76'')"
    by (simp add: parse_eval)
  have h5: "received_hash (str ''auth_date=100&user=%7B%22id%22%3A1%7D&hash=74610B64E67BEDEC8A2D19F6B8CEC164A62FFF2BA6B563E61B342A49049EFB76'')
     = Some (hex_upper (str ''74610b64e67bedec8a2d19f6b8cec164a62fff2ba6b563e61b342a49049efb76''))"
    by (simp add: parse_eval hex_upper_def)
  from uppercase_hash_rejected [OF valid_signed received_signed h3 h4 h5]
  show ?thesis
    using received_signed h3 h4 h5 by blast
qed

end
